theory Spec2Isabelle
  imports Main "HOL-Library.Word"
begin

section \<open>Deferred garbage collection of evicted inodes (btrfs gc-tree)\<close>

text \<open>
  A shallow embedding of the GC-tree module: \<open>inode_gc_root\<close>, \<open>add_gc_item\<close>,
  \<open>delete_gc_item\<close>, \<open>gc_inode\<close>, \<open>gc_work_fn\<close>, \<open>btrfs_queue_gc_work\<close> and
  \<open>btrfs_add_inode_gc_item\<close>.  The module's functions are translated statement by
  statement; everything they call in the rest of the kernel is a primitive whose return
  value comes from a parameter, so that every theorem holds for all behaviours of the
  rest of the kernel.
\<close>

subsection \<open>Data\<close>

type_synonym u8 = "8 word"
type_synonym u64 = "64 word"

text \<open>\<open>struct btrfs_key\<close>.\<close>

record btrfs_key =
  objectid :: u64
  type :: u8
  offset :: u64

text \<open>
  A \<open>struct btrfs_root *\<close>.  Of the structure itself only \<open>root_key\<close> is immutable;
  the \<open>state\<close> bits and the items of the tree live in the state of the world, indexed
  by the root.
\<close>

record btrfs_root =
  root_key :: btrfs_key

text \<open>\<open>struct btrfs_inode\<close>: \<open>inode->root\<close> and the value of \<open>btrfs_ino(inode)\<close>.\<close>

record btrfs_inode =
  root :: btrfs_root
  btrfs_ino :: u64

text \<open>
  The immutable part of \<open>struct btrfs_fs_info\<close>: the number of global roots, the table
  \<open>btrfs_global_root\<close> searches, the subvolume roots \<open>btrfs_get_fs_root\<close> resolves, and
  the incompat bit \<open>btrfs_fs_incompat(fs_info, EXTENT_TREE_V2)\<close> tests.
\<close>

record btrfs_fs_info =
  nr_global_roots :: u64
  global_root_tree :: "btrfs_key \<Rightarrow> btrfs_root"
  fs_roots :: "u64 \<Rightarrow> btrfs_root"
  incompat_extent_tree_v2 :: bool

text \<open>
  \<open>trans->block_rsv\<close> points either to \<open>fs_info->trans_block_rsv\<close> or to a reservation
  that was allocated with \<open>btrfs_alloc_block_rsv\<close> (numbered by allocation).
\<close>

datatype rsv_ptr = TransBlockRsv | TempRsv nat

text \<open>\<open>struct btrfs_trans_handle\<close>: the handle's identity and its \<open>block_rsv\<close> field.\<close>

record btrfs_trans_handle =
  transid :: nat
  block_rsv :: rsv_ptr

text \<open>\<open>struct btrfs_block_rsv\<close>: the two fields the worker writes.\<close>

record btrfs_block_rsv =
  size_rsv :: u64
  failfast :: bool

text \<open>\<open>struct btrfs_truncate_control\<close>: the three fields \<open>gc_inode\<close> initialises.\<close>

record btrfs_truncate_control =
  ino :: u64
  new_size :: u64
  min_type :: u8

text \<open>
  A \<open>struct btrfs_path\<close> is either free storage, allocated and holding nothing, or
  holding (locked) nodes of a root, at an item or at the place where a key is missing.
\<close>

datatype path_state = NoPath | Clean | Held btrfs_root "btrfs_key option"

text \<open>The calls into the rest of the kernel whose outcome this module cannot determine.\<close>

datatype prim =
    P_alloc_path | P_refill_and_join | P_insert_empty_item | P_search_slot | P_del_item
  | P_get_fs_root | P_truncate_inode_items | P_alloc_block_rsv | P_fs_closing
  | P_first_item | P_kmalloc

text \<open>
  What the rest of the kernel supplies.  \<open>answers p n\<close> is the C value returned by the
  \<open>n\<close>-th call of primitive \<open>p\<close>: an \<open>int\<close> status, or a pointer read as a \<open>long\<close>
  (\<open>0\<close> is \<open>NULL\<close>, \<open>-4095 .. -1\<close> is an \<open>ERR_PTR\<close>).  The three tree constants and the
  value of \<open>btrfs_calc_metadata_size(fs_info, 1)\<close> come from headers outside this module.
\<close>

record kernel =
  answers :: "prim \<Rightarrow> nat \<Rightarrow> int"
  BTRFS_GC_TREE_OBJECTID :: u64
  BTRFS_ROOT_ITEM_KEY :: u8
  BTRFS_GC_INODE_ITEM_KEY :: u8
  metadata_size :: u64

text \<open>What the module's calls leave behind for an observer, in order.\<close>

datatype event =
    Join btrfs_trans_handle btrfs_root nat
  | InsertEmptyItem btrfs_trans_handle btrfs_root btrfs_key int
  | SearchSlot btrfs_trans_handle btrfs_root btrfs_key int
  | DelItem btrfs_trans_handle btrfs_root "btrfs_key option"
  | TruncateInodeItems btrfs_trans_handle btrfs_root u64 int
  | EndTransaction btrfs_trans_handle
  | ReleasePath nat
  | BalanceDirty
  | PutRoot btrfs_root
  | BtrfsErr u64 int

text \<open>
  The mutable state: how often each primitive has been called, the items of every tree,
  the paths and reservations allocated, the number of transaction handles joined and not
  yet ended, the \<open>BTRFS_ROOT_GC_RUNNING\<close> bit of every root, the work queued on
  \<open>fs_info->gc_workers\<close> (a \<open>struct gc_work\<close> is its \<open>root\<close>), and the trace.
\<close>

record world =
  calls :: "prim \<Rightarrow> nat"
  trees :: "btrfs_root \<Rightarrow> btrfs_key list"
  paths :: "nat \<Rightarrow> path_state"
  rsvs :: "nat \<Rightarrow> btrfs_block_rsv option"
  open_trans :: nat
  gc_running :: "btrfs_root \<Rightarrow> bool"
  gc_workers :: "btrfs_root list"
  trace :: "event list"

subsection \<open>Error numbers and error pointers\<close>

definition ENOENT :: int where "ENOENT = 2"
definition EAGAIN :: int where "EAGAIN = 11"
definition ENOMEM :: int where "ENOMEM = 12"
definition EEXIST :: int where "EEXIST = 17"
definition EINVAL :: int where "EINVAL = 22"
definition ENOSPC :: int where "ENOSPC = 28"

definition MAX_ERRNO :: int where "MAX_ERRNO = 4095"

text \<open>\<open>IS_ERR(ptr)\<close>: the pointer, as an unsigned long, is at least \<open>(unsigned long)-MAX_ERRNO\<close>.\<close>

definition IS_ERR :: "int \<Rightarrow> bool" where
  "IS_ERR p \<longleftrightarrow> - MAX_ERRNO \<le> p \<and> p < 0"

subsection \<open>Primitives of the rest of the kernel\<close>

text \<open>The \<open>n\<close>-th call of a primitive reads its answer and counts the call.\<close>

definition ask :: "kernel \<Rightarrow> prim \<Rightarrow> world \<Rightarrow> int \<times> world" where
  "ask K p s = (answers K p (calls s p), s\<lparr>calls := (calls s)(p := Suc (calls s p))\<rparr>)"

definition emit :: "event \<Rightarrow> world \<Rightarrow> world" where
  "emit e s = s\<lparr>trace := trace s @ [e]\<rparr>"

text \<open>
  Modelled from the spec: \<open>btrfs_global_root\<close>, the root/container resolver
  \<open>resolve(tree_id, key_offset)\<close>, is missing from the sources.  It looks a fixed,
  always-present container up and has no side effect.
\<close>

definition btrfs_global_root :: "btrfs_fs_info \<Rightarrow> btrfs_key \<Rightarrow> btrfs_root" where
  "btrfs_global_root fs key = global_root_tree fs key"

text \<open>
  The primitives below (path and reservation allocation, the transaction manager's
  \<open>join_or_start\<close> and \<open>end\<close>, the tree's search, insert and delete, the truncation
  engine, the filesystem state queries, the bit operations and the work queue) are the
  external collaborators of the module; their code is missing from the sources.  Each one
  returns what the kernel parameter answers and does to the state what the spec says of
  it.
\<close>

text \<open>
  Modelled from the spec: \<open>btrfs_alloc_path\<close> is missing from the sources.  It returns
  \<open>NULL\<close> or scratch path storage that holds nothing yet.
\<close>

definition btrfs_alloc_path :: "kernel \<Rightarrow> world \<Rightarrow> nat option \<times> world" where
  "btrfs_alloc_path K s =
     (let (v, s1) = ask K P_alloc_path s; p = calls s P_alloc_path
      in if v = 0 then (None, s1) else (Some p, s1\<lparr>paths := (paths s1)(p := Clean)\<rparr>))"

text \<open>
  Modelled from the spec: \<open>btrfs_free_path\<close> is missing from the sources.  It gives the
  storage back; on \<open>NULL\<close> it does nothing.
\<close>

definition btrfs_free_path :: "nat option \<Rightarrow> world \<Rightarrow> world" where
  "btrfs_free_path path s =
     (case path of None \<Rightarrow> s | Some p \<Rightarrow> s\<lparr>paths := (paths s)(p := NoPath)\<rparr>)"

text \<open>
  Modelled from the spec: \<open>btrfs_release_path\<close> is missing from the sources.  It
  releases the read handle: the path holds nothing afterwards.
\<close>

definition btrfs_release_path :: "nat \<Rightarrow> world \<Rightarrow> world" where
  "btrfs_release_path p s = emit (ReleasePath p) (s\<lparr>paths := (paths s)(p := Clean)\<rparr>)"

text \<open>
  Modelled from the spec: \<open>btrfs_gc_rsv_refill_and_join\<close>, the transaction manager's
  \<open>join_or_start(root, reservation)\<close> after a refill, is missing from the sources.  It
  returns an \<open>ERR_PTR\<close>, never \<open>NULL\<close>, or a handle of its own that is on the
  filesystem's default budget, the one the module restores before it ends a handle.
\<close>

definition btrfs_gc_rsv_refill_and_join ::
    "kernel \<Rightarrow> btrfs_root \<Rightarrow> nat \<Rightarrow> world \<Rightarrow> (int + btrfs_trans_handle) \<times> world" where
  "btrfs_gc_rsv_refill_and_join K rt rsv s =
     (let (v, s1) = ask K P_refill_and_join s;
          handle = \<lparr>transid = calls s P_refill_and_join, block_rsv = TransBlockRsv\<rparr>
      in if IS_ERR v then (Inl v, s1)
         else (Inr handle, emit (Join handle rt rsv) (s1\<lparr>open_trans := Suc (open_trans s1)\<rparr>)))"

text \<open>
  Modelled from the spec: \<open>btrfs_end_transaction\<close>, the transaction manager's
  \<open>end(handle)\<close>, is missing from the sources.  One handle fewer is open.
\<close>

definition btrfs_end_transaction :: "btrfs_trans_handle \<Rightarrow> world \<Rightarrow> world" where
  "btrfs_end_transaction handle s =
     emit (EndTransaction handle) (s\<lparr>open_trans := open_trans s - 1\<rparr>)"

text \<open>
  Modelled from the spec: the order of the keys \<open>(objectid, type, offset)\<close> in a tree,
  and the insertion that keeps it.
\<close>

definition key_less :: "btrfs_key \<Rightarrow> btrfs_key \<Rightarrow> bool" where
  "key_less a b \<longleftrightarrow>
     objectid a < objectid b \<or>
     (objectid a = objectid b \<and> (type a < type b \<or> (type a = type b \<and> offset a < offset b)))"

fun key_insert :: "btrfs_key \<Rightarrow> btrfs_key list \<Rightarrow> btrfs_key list" where
  "key_insert k [] = [k]"
| "key_insert k (x # xs) = (if key_less k x then k # x # xs else x # key_insert k xs)"

text \<open>
  Modelled from the spec: \<open>btrfs_insert_empty_item\<close> is missing from the sources.  It
  fails with the error the kernel answers, or with \<open>-EEXIST\<close> when the key is already
  present; otherwise the key is in the tree and the path is at it.
\<close>

definition btrfs_insert_empty_item ::
    "kernel \<Rightarrow> btrfs_trans_handle \<Rightarrow> btrfs_root \<Rightarrow> nat \<Rightarrow> btrfs_key \<Rightarrow> world \<Rightarrow> int \<times> world" where
  "btrfs_insert_empty_item K handle rt p key s =
     (let (v, s1) = ask K P_insert_empty_item s
      in if v < 0 then (v, emit (InsertEmptyItem handle rt key v) s1)
         else if key \<in> set (trees s1 rt)
           then (- EEXIST, emit (InsertEmptyItem handle rt key (- EEXIST)) s1)
         else (0, emit (InsertEmptyItem handle rt key 0)
                    (s1\<lparr>trees := (trees s1)(rt := key_insert key (trees s1 rt)),
                        paths := (paths s1)(p := Held rt (Some key))\<rparr>)))"

text \<open>
  Modelled from the spec: \<open>btrfs_search_slot\<close>, the search for the exact key, is missing
  from the sources.  It returns 0 when the key is found, 1 when it is not, and the error
  the kernel answers; without an error the path holds nodes of the tree afterwards.
\<close>

definition btrfs_search_slot ::
    "kernel \<Rightarrow> btrfs_trans_handle \<Rightarrow> btrfs_root \<Rightarrow> btrfs_key \<Rightarrow> nat \<Rightarrow> world \<Rightarrow> int \<times> world" where
  "btrfs_search_slot K handle rt key p s =
     (let (v, s1) = ask K P_search_slot s
      in if v < 0 then (v, emit (SearchSlot handle rt key v) s1)
         else if key \<in> set (trees s1 rt)
           then (0, emit (SearchSlot handle rt key 0)
                      (s1\<lparr>paths := (paths s1)(p := Held rt (Some key))\<rparr>))
         else (1, emit (SearchSlot handle rt key 1)
                    (s1\<lparr>paths := (paths s1)(p := Held rt None)\<rparr>)))"

text \<open>
  Modelled from the spec: \<open>btrfs_del_item\<close> is missing from the sources.  It deletes
  the item the path is at, unless it fails; the module ignores its return value, so it
  is not returned here.
\<close>

definition btrfs_del_item ::
    "kernel \<Rightarrow> btrfs_trans_handle \<Rightarrow> btrfs_root \<Rightarrow> nat \<Rightarrow> world \<Rightarrow> world" where
  "btrfs_del_item K handle rt p s =
     (let (v, s1) = ask K P_del_item s
      in case paths s1 p of
           Held r (Some k) \<Rightarrow>
             emit (DelItem handle rt (Some k))
               (if v < 0 then s1
                else s1\<lparr>trees := (trees s1)(rt := removeAll k (trees s1 rt))\<rparr>)
         | _ \<Rightarrow> emit (DelItem handle rt None) s1)"

text \<open>
  Modelled from the spec: \<open>btrfs_first_item\<close>, reading the first key in the root, is
  missing from the sources.  It returns 0 with the path at the first item, and a nonzero
  value when the root has no item or the read fails.
\<close>

definition btrfs_first_item :: "kernel \<Rightarrow> btrfs_root \<Rightarrow> nat \<Rightarrow> world \<Rightarrow> int \<times> world" where
  "btrfs_first_item K rt p s =
     (let (v, s1) = ask K P_first_item s
      in if v < 0 then (v, s1)
         else case trees s1 rt of
                [] \<Rightarrow> (1, s1)
              | k # ks \<Rightarrow> (0, s1\<lparr>paths := (paths s1)(p := Held rt (Some k))\<rparr>))"

text \<open>
  Modelled from the spec: \<open>btrfs_item_key_to_cpu(path->nodes[0], &key, path->slots[0])\<close>
  is missing from the sources.  It reads the key at the path.  The module calls it
  only after \<open>btrfs_first_item\<close> returned 0, when the path is at an item; on a path that
  is at no item the C reads whatever the slot holds, here a zeroed key.
\<close>

definition btrfs_item_key_to_cpu :: "nat \<Rightarrow> world \<Rightarrow> btrfs_key" where
  "btrfs_item_key_to_cpu p s =
     (case paths s p of
        Held r (Some k) \<Rightarrow> k
      | _ \<Rightarrow> \<lparr>objectid = 0, type = 0, offset = 0\<rparr>)"

text \<open>
  Modelled from the spec: \<open>btrfs_get_fs_root\<close>, resolving the owning subvolume, is
  missing from the sources.  It returns an \<open>ERR_PTR\<close>, never \<open>NULL\<close>, or the root of
  the subvolume.
\<close>

definition btrfs_get_fs_root ::
    "kernel \<Rightarrow> btrfs_fs_info \<Rightarrow> u64 \<Rightarrow> world \<Rightarrow> (int + btrfs_root) \<times> world" where
  "btrfs_get_fs_root K fs oid s =
     (let (v, s1) = ask K P_get_fs_root s
      in if IS_ERR v then (Inl v, s1) else (Inr (fs_roots fs oid), s1))"

text \<open>
  Modelled from the spec: \<open>btrfs_put_root\<close>, \<open>btrfs_err\<close> and
  \<open>btrfs_btree_balance_dirty\<close> are missing from the sources.  They are recorded in the
  trace and change nothing else.
\<close>

definition btrfs_put_root :: "btrfs_root \<Rightarrow> world \<Rightarrow> world" where
  "btrfs_put_root r s = emit (PutRoot r) s"

definition btrfs_err :: "u64 \<Rightarrow> int \<Rightarrow> world \<Rightarrow> world" where
  "btrfs_err oid ret s = emit (BtrfsErr oid ret) s"

text \<open>
  Modelled from the spec: \<open>btrfs_truncate_inode_items\<close>, the truncation engine, is
  missing from the sources.  It returns what the kernel answers; the handle it ran in,
  with the reservation it was on, is recorded.
\<close>

definition btrfs_truncate_inode_items ::
    "kernel \<Rightarrow> btrfs_trans_handle \<Rightarrow> btrfs_root \<Rightarrow> btrfs_truncate_control \<Rightarrow> world \<Rightarrow> int \<times> world" where
  "btrfs_truncate_inode_items K handle r control s =
     (let (v, s1) = ask K P_truncate_inode_items s
      in (v, emit (TruncateInodeItems handle r (ino control) v) s1))"

definition btrfs_btree_balance_dirty :: "world \<Rightarrow> world" where
  "btrfs_btree_balance_dirty s = emit BalanceDirty s"

text \<open>
  Modelled from the spec: \<open>btrfs_alloc_block_rsv\<close> and \<open>btrfs_free_block_rsv\<close>, the
  reservation allocator's \<open>alloc_temp\<close> and \<open>free\<close>, are missing from the sources.
\<close>

definition btrfs_alloc_block_rsv :: "kernel \<Rightarrow> world \<Rightarrow> nat option \<times> world" where
  "btrfs_alloc_block_rsv K s =
     (let (v, s1) = ask K P_alloc_block_rsv s; r = calls s P_alloc_block_rsv
      in if v = 0 then (None, s1)
         else (Some r, s1\<lparr>rsvs := (rsvs s1)(r := Some \<lparr>size_rsv = 0, failfast = False\<rparr>)\<rparr>))"

definition btrfs_free_block_rsv :: "nat \<Rightarrow> world \<Rightarrow> world" where
  "btrfs_free_block_rsv r s = s\<lparr>rsvs := (rsvs s)(r := None)\<rparr>"

text \<open>
  Modelled from the spec: \<open>btrfs_fs_closing\<close>, the state query \<open>is_closing()\<close>, and
  \<open>kmalloc\<close> are missing from the sources.  Other threads decide what they return.
\<close>

definition btrfs_fs_closing :: "kernel \<Rightarrow> world \<Rightarrow> bool \<times> world" where
  "btrfs_fs_closing K s = (let (v, s1) = ask K P_fs_closing s in (v \<noteq> 0, s1))"

definition kmalloc :: "kernel \<Rightarrow> world \<Rightarrow> bool \<times> world" where
  "kmalloc K s = (let (v, s1) = ask K P_kmalloc s in (v \<noteq> 0, s1))"

text \<open>
  Modelled from the spec: \<open>test_and_set_bit\<close> and \<open>clear_bit\<close>, the atomic bit
  operations, here on \<open>BTRFS_ROOT_GC_RUNNING\<close> of \<open>root->state\<close>, and
  \<open>btrfs_queue_work\<close>, the \<open>enqueue(task)\<close> of the asynchronous execution facility, are
  missing from the sources.
\<close>

definition test_and_set_bit :: "btrfs_root \<Rightarrow> world \<Rightarrow> bool \<times> world" where
  "test_and_set_bit r s = (gc_running s r, s\<lparr>gc_running := (gc_running s)(r := True)\<rparr>)"

definition clear_bit :: "btrfs_root \<Rightarrow> world \<Rightarrow> world" where
  "clear_bit r s = s\<lparr>gc_running := (gc_running s)(r := False)\<rparr>"

definition btrfs_queue_work :: "btrfs_root \<Rightarrow> world \<Rightarrow> world" where
  "btrfs_queue_work r s = s\<lparr>gc_workers := gc_workers s @ [r]\<rparr>"

subsection \<open>The router\<close>

text \<open>\<open>inode_gc_root\<close>.  C's \<open>%\<close> on two \<open>u64\<close> is \<open>mod\<close> on words when the divisor is not 0.\<close>

definition inode_gc_root :: "kernel \<Rightarrow> btrfs_fs_info \<Rightarrow> btrfs_inode \<Rightarrow> btrfs_root" where
  "inode_gc_root K fs inode =
     (let key = \<lparr>objectid = BTRFS_GC_TREE_OBJECTID K,
                 type = BTRFS_ROOT_ITEM_KEY K,
                 offset = btrfs_ino inode mod nr_global_roots fs\<rparr>
      in btrfs_global_root fs key)"

subsection \<open>The item store\<close>

text \<open>\<open>add_gc_item\<close>.\<close>

definition add_gc_item :: "kernel \<Rightarrow> btrfs_root \<Rightarrow> btrfs_key \<Rightarrow> nat \<Rightarrow> world \<Rightarrow> int \<times> world" where
  "add_gc_item K r key rsv s =
     (case btrfs_alloc_path K s of
        (None, s1) \<Rightarrow> (- ENOMEM, s1)
      | (Some path, s1) \<Rightarrow>
          (case btrfs_gc_rsv_refill_and_join K r rsv s1 of
             (Inl e, s2) \<Rightarrow> (e, btrfs_free_path (Some path) s2)
           | (Inr handle, s2) \<Rightarrow>
               (let handle = handle\<lparr>block_rsv := TempRsv rsv\<rparr>;
                    (ret, s3) = btrfs_insert_empty_item K handle r path key s2;
                    handle = handle\<lparr>block_rsv := TransBlockRsv\<rparr>;
                    s4 = btrfs_end_transaction handle s3
                in (ret, btrfs_free_path (Some path) s4))))"

text \<open>\<open>delete_gc_item\<close>.  It returns \<open>void\<close>: only the state comes back.\<close>

definition delete_gc_item ::
    "kernel \<Rightarrow> btrfs_root \<Rightarrow> nat \<Rightarrow> nat \<Rightarrow> btrfs_key \<Rightarrow> world \<Rightarrow> world" where
  "delete_gc_item K r path rsv key s =
     (case btrfs_gc_rsv_refill_and_join K r rsv s of
        (Inl e, s1) \<Rightarrow> s1
      | (Inr handle, s1) \<Rightarrow>
          (let (ret, s2) = btrfs_search_slot K handle r key path s1;
               ret = (if ret > 0 then - ENOENT else ret)
           in if ret < 0 then s2
              else (let s3 = btrfs_del_item K handle r path s2;
                        s4 = btrfs_release_path path s3
                    in btrfs_end_transaction handle s4)))"

text \<open>\<open>btrfs_add_inode_gc_item\<close>.\<close>

definition btrfs_add_inode_gc_item ::
    "kernel \<Rightarrow> btrfs_fs_info \<Rightarrow> btrfs_inode \<Rightarrow> nat \<Rightarrow> world \<Rightarrow> int \<times> world" where
  "btrfs_add_inode_gc_item K fs inode rsv s =
     (let key = \<lparr>objectid = objectid (root_key (root inode)),
                 type = BTRFS_GC_INODE_ITEM_KEY K,
                 offset = btrfs_ino inode\<rparr>
      in add_gc_item K (inode_gc_root K fs inode) key rsv s)"

subsection \<open>The reclaim worker\<close>

text \<open>
  The \<open>do \<dots> while\<close> loop of \<open>gc_inode\<close>.  It may run forever: \<open>None\<close> is the loop
  that does not return.
\<close>

partial_function (option) gc_inode_loop ::
    "kernel \<Rightarrow> btrfs_root \<Rightarrow> nat \<Rightarrow> btrfs_key \<Rightarrow> world \<Rightarrow> (int \<times> world) option" where
  "gc_inode_loop K r rsv key s =
     (let control = \<lparr>ino = offset key, new_size = 0, min_type = 0\<rparr>
      in case btrfs_gc_rsv_refill_and_join K r rsv s of
           (Inl e, s1) \<Rightarrow> Some (e, s1)
         | (Inr handle, s1) \<Rightarrow>
             (let handle = handle\<lparr>block_rsv := TempRsv rsv\<rparr>;
                  (ret, s2) = btrfs_truncate_inode_items K handle r control s1;
                  handle = handle\<lparr>block_rsv := TransBlockRsv\<rparr>;
                  s3 = btrfs_end_transaction handle s2;
                  s4 = btrfs_btree_balance_dirty s3
              in if ret = - ENOSPC \<or> ret = - EAGAIN then gc_inode_loop K r rsv key s4
                 else Some (ret, s4)))"

text \<open>\<open>gc_inode\<close>.\<close>

definition gc_inode ::
    "kernel \<Rightarrow> btrfs_fs_info \<Rightarrow> nat \<Rightarrow> btrfs_key \<Rightarrow> world \<Rightarrow> (int \<times> world) option" where
  "gc_inode K fs rsv key s =
     (case btrfs_get_fs_root K fs (objectid key) s of
        (Inl ret, s1) \<Rightarrow>
          if ret = - ENOENT then Some (0, s1)
          else Some (ret, btrfs_err (objectid key) ret s1)
      | (Inr r, s1) \<Rightarrow>
          (case gc_inode_loop K r rsv key s1 of
             None \<Rightarrow> None
           | Some (ret, s2) \<Rightarrow> Some (ret, btrfs_put_root r s2)))"

text \<open>
  The body of the \<open>while\<close> loop of \<open>gc_work_fn\<close>, entered with the path at the first
  item: it returns \<open>ret\<close> and the state after the conditional \<open>delete_gc_item\<close>.
  \<open>ASSERT(0)\<close> is compiled out unless \<open>CONFIG_BTRFS_ASSERT\<close> is set.
\<close>

definition gc_work_item ::
    "kernel \<Rightarrow> btrfs_fs_info \<Rightarrow> btrfs_root \<Rightarrow> nat \<Rightarrow> nat \<Rightarrow> world \<Rightarrow> (int \<times> world) option" where
  "gc_work_item K fs r path rsv s =
     (let key = btrfs_item_key_to_cpu path s;
          s1 = btrfs_release_path path s
      in case (if type key = BTRFS_GC_INODE_ITEM_KEY K then gc_inode K fs rsv key s1
               else Some (- EINVAL, s1)) of
           None \<Rightarrow> None
         | Some (ret, s2) \<Rightarrow>
             Some (ret, if ret = 0 then delete_gc_item K r path rsv key s2 else s2))"

text \<open>The \<open>while\<close> loop of \<open>gc_work_fn\<close>; \<open>&&\<close> evaluates its right operand only when the left holds.\<close>

partial_function (option) gc_work_loop ::
    "kernel \<Rightarrow> btrfs_fs_info \<Rightarrow> btrfs_root \<Rightarrow> nat \<Rightarrow> nat \<Rightarrow> world \<Rightarrow> world option" where
  "gc_work_loop K fs r path rsv s =
     (let (closing, s1) = btrfs_fs_closing K s
      in if \<not> closing then Some s1
         else (let (ret, s2) = btrfs_first_item K r path s1
               in if ret \<noteq> 0 then Some s2
                  else (case gc_work_item K fs r path rsv s2 of
                          None \<Rightarrow> None
                        | Some (ret, s3) \<Rightarrow> gc_work_loop K fs r path rsv s3)))"

text \<open>\<open>gc_work_fn\<close>, for the \<open>gc_work\<close> whose \<open>root\<close> is \<open>r\<close>.\<close>

definition gc_work_fn :: "kernel \<Rightarrow> btrfs_fs_info \<Rightarrow> btrfs_root \<Rightarrow> world \<Rightarrow> world option" where
  "gc_work_fn K fs r s =
     (case btrfs_alloc_path K s of
        (None, s1) \<Rightarrow> Some (clear_bit r s1)
      | (Some path, s1) \<Rightarrow>
          (case btrfs_alloc_block_rsv K s1 of
             (None, s2) \<Rightarrow> Some (clear_bit r (btrfs_free_path (Some path) s2))
           | (Some rsv, s2) \<Rightarrow>
               (let s3 = s2\<lparr>rsvs := (rsvs s2)
                            (rsv := Some \<lparr>size_rsv = metadata_size K, failfast = True\<rparr>)\<rparr>
                in case gc_work_loop K fs r path rsv s3 of
                     None \<Rightarrow> None
                   | Some s4 \<Rightarrow>
                       Some (clear_bit r
                              (btrfs_free_path (Some path) (btrfs_free_block_rsv rsv s4))))))"

subsection \<open>The dispatcher\<close>

text \<open>The root the dispatcher resolves at index \<open>i\<close>: \<open>key.offset = i\<close> with \<open>int i\<close>.\<close>

definition gc_root_at :: "kernel \<Rightarrow> btrfs_fs_info \<Rightarrow> int \<Rightarrow> btrfs_root" where
  "gc_root_at K fs i =
     btrfs_global_root fs
       \<lparr>objectid = BTRFS_GC_TREE_OBJECTID K, type = BTRFS_ROOT_ITEM_KEY K, offset = word_of_int i\<rparr>"

text \<open>
  The values \<open>i\<close> takes in the \<open>for\<close> loop of \<open>btrfs_queue_gc_work\<close>:
  \<open>int nr_global_roots = fs_info->nr_global_roots\<close> keeps the low 32 bits of the \<open>u64\<close>,
  read as signed, and \<open>i\<close> runs from 0 while \<open>i < nr_global_roots\<close>.
\<close>

definition gc_root_indices :: "btrfs_fs_info \<Rightarrow> int list" where
  "gc_root_indices fs = (let nr = sint (ucast (nr_global_roots fs) :: 32 word) in [0..nr - 1])"

text \<open>The body of the \<open>for\<close> loop of \<open>btrfs_queue_gc_work\<close>.\<close>

definition queue_gc_root :: "kernel \<Rightarrow> btrfs_fs_info \<Rightarrow> int \<Rightarrow> world \<Rightarrow> world" where
  "queue_gc_root K fs i s =
     (let r = gc_root_at K fs i;
          (was_set, s1) = test_and_set_bit r s
      in if was_set then s1
         else (let (gc_work, s2) = kmalloc K s1
               in if \<not> gc_work then clear_bit r s2
                  else btrfs_queue_work r s2))"

text \<open>\<open>btrfs_queue_gc_work\<close>.\<close>

definition btrfs_queue_gc_work :: "kernel \<Rightarrow> btrfs_fs_info \<Rightarrow> world \<Rightarrow> world" where
  "btrfs_queue_gc_work K fs s =
     (if \<not> incompat_extent_tree_v2 fs then s
      else (let (closing, s1) = btrfs_fs_closing K s
            in if closing then s1
               else fold (queue_gc_root K fs) (gc_root_indices fs) s1))"

subsection \<open>A filesystem to run the module on\<close>

text \<open>
  Sixteen global roots, each identified with its key; a kernel in which every call
  succeeds, no truncation needs a retry and the filesystem is not closing; an empty world.
\<close>

definition fs16 :: btrfs_fs_info where
  "fs16 = \<lparr>nr_global_roots = 16,
           global_root_tree = (\<lambda>k. \<lparr>root_key = k\<rparr>),
           fs_roots = (\<lambda>i. \<lparr>root_key = \<lparr>objectid = i, type = 132, offset = 0\<rparr>\<rparr>),
           incompat_extent_tree_v2 = True\<rparr>"

definition kernel_ok :: kernel where
  "kernel_ok = \<lparr>answers = (\<lambda>p n. if p = P_truncate_inode_items \<or> p = P_fs_closing then 0 else 1),
                BTRFS_GC_TREE_OBJECTID = 12,
                BTRFS_ROOT_ITEM_KEY = 132,
                BTRFS_GC_INODE_ITEM_KEY = 193,
                metadata_size = 196608\<rparr>"

definition world0 :: world where
  "world0 = \<lparr>calls = (\<lambda>p. 0), trees = (\<lambda>r. []), paths = (\<lambda>p. NoPath), rsvs = (\<lambda>r. None),
             open_trans = 0, gc_running = (\<lambda>r. False), gc_workers = [], trace = []\<rparr>"

text \<open>Inode 42 of subvolume 7.\<close>

definition inode42 :: btrfs_inode where
  "inode42 = \<lparr>root = \<lparr>root_key = \<lparr>objectid = 7, type = 132, offset = 0\<rparr>\<rparr>, btrfs_ino = 42\<rparr>"

text \<open>Global root 10 of the GC tree, the GC item of inode 42, and a world where root 10 holds it.\<close>

definition root10 :: btrfs_root where
  "root10 = \<lparr>root_key = \<lparr>objectid = 12, type = 132, offset = 10\<rparr>\<rparr>"

definition key742 :: btrfs_key where
  "key742 = \<lparr>objectid = 7, type = 193, offset = 42\<rparr>"

definition world1 :: world where
  "world1 = world0\<lparr>trees := (\<lambda>r. [])(root10 := [key742])\<rparr>"

text \<open>The same world with the running bit of root 10 set, and with path 0 at the item.\<close>

definition world1_running :: world where
  "world1_running = world1\<lparr>gc_running := (\<lambda>r. False)(root10 := True)\<rparr>"

definition world1_at_item :: world where
  "world1_at_item = world1\<lparr>paths := (\<lambda>p. NoPath)(0 := Held root10 (Some key742))\<rparr>"

text \<open>One global root instead of sixteen.\<close>

definition fs1 :: btrfs_fs_info where
  "fs1 = fs16\<lparr>nr_global_roots := 1\<rparr>"

text \<open>A count of global roots that does not fit an \<open>int\<close>, \<open>2^32 + 3\<close>, and inode 100.\<close>

definition fs_wide :: btrfs_fs_info where
  "fs_wide = fs16\<lparr>nr_global_roots := 4294967299\<rparr>"

definition inode100 :: btrfs_inode where
  "inode100 = \<lparr>root = \<lparr>root_key = \<lparr>objectid = 7, type = 132, offset = 0\<rparr>\<rparr>, btrfs_ino = 100\<rparr>"

text \<open>
  Kernels that differ from \<open>kernel_ok\<close> in one answer: the subvolume is gone
  (\<open>-ENOENT\<close>); the subvolume cannot be read (\<open>-EIO\<close>) while the filesystem is closing,
  for ever or for the first two tests; the truncation needs two retries (\<open>-ENOSPC\<close>, then
  \<open>-EAGAIN\<close>); an allocation fails.
\<close>

definition kernel_enoent :: kernel where
  "kernel_enoent = kernel_ok\<lparr>answers := (answers kernel_ok)(P_get_fs_root := (\<lambda>n. - 2))\<rparr>"

definition kernel_eio :: kernel where
  "kernel_eio = kernel_ok\<lparr>answers := (answers kernel_ok)
     (P_get_fs_root := (\<lambda>n. - 5), P_fs_closing := (\<lambda>n. 1))\<rparr>"

definition kernel_eio_twice :: kernel where
  "kernel_eio_twice = kernel_ok\<lparr>answers := (answers kernel_ok)
     (P_get_fs_root := (\<lambda>n. - 5), P_fs_closing := (\<lambda>n. if n < 2 then 1 else 0))\<rparr>"


definition kernel_nopath :: kernel where
  "kernel_nopath = kernel_ok\<lparr>answers := (answers kernel_ok)(P_alloc_path := (\<lambda>n. 0))\<rparr>"

definition kernel_norsv :: kernel where
  "kernel_norsv = kernel_ok\<lparr>answers := (answers kernel_ok)(P_alloc_block_rsv := (\<lambda>n. 0))\<rparr>"

definition kernel_nowork :: kernel where
  "kernel_nowork = kernel_ok\<lparr>answers := (answers kernel_ok)(P_kmalloc := (\<lambda>n. 0))\<rparr>"

subsection \<open>Expected traces\<close>

text \<open>
  What one pass of the loop of \<open>gc_inode\<close> should leave in the trace when it is the
  \<open>j\<close>-th join and the \<open>c\<close>-th truncation: a handle of its own, on the caller's
  reservation while truncating and back on the default budget when ended.  Then \<open>m + 1\<close>
  such passes in a row.
\<close>

definition truncate_attempt ::
    "kernel \<Rightarrow> btrfs_root \<Rightarrow> nat \<Rightarrow> btrfs_key \<Rightarrow> nat \<Rightarrow> nat \<Rightarrow> event list" where
  "truncate_attempt K r rsv key j c =
     [Join \<lparr>transid = j, block_rsv = TransBlockRsv\<rparr> r rsv,
      TruncateInodeItems \<lparr>transid = j, block_rsv = TempRsv rsv\<rparr> r (offset key)
        (answers K P_truncate_inode_items c),
      EndTransaction \<lparr>transid = j, block_rsv = TransBlockRsv\<rparr>,
      BalanceDirty]"


text \<open>
  The state in which the loop of \<open>gc_work_fn\<close> tests its condition again after the first
  item \<open>key\<close> of the root could not be processed because its subvolume root could not be
  looked up: the two tests of the condition, the release of the path, the lookup and the
  error message have happened, in this order.
\<close>

definition after_failed_item ::
    "kernel \<Rightarrow> btrfs_fs_info \<Rightarrow> btrfs_root \<Rightarrow> nat \<Rightarrow> btrfs_key \<Rightarrow> world \<Rightarrow> world" where
  "after_failed_item K fs r path key s =
     btrfs_err (objectid key) (answers K P_get_fs_root (calls s P_get_fs_root))
       (snd (btrfs_get_fs_root K fs (objectid key)
         (btrfs_release_path path
           (snd (btrfs_first_item K r path (snd (btrfs_fs_closing K s)))))))"

text \<open>The state in which \<open>gc_work_fn\<close> enters its loop when started in \<open>world1_running\<close>.\<close>

definition world1_loop_entry :: world where
  "world1_loop_entry =
     world1_running\<lparr>calls := (calls world1_running)(P_alloc_path := 1, P_alloc_block_rsv := 1),
            paths := (paths world1_running)(0 := Clean),
            rsvs := (rsvs world1_running)(0 := Some \<lparr>size_rsv = 196608, failfast = True\<rparr>)\<rparr>"

subsection \<open>Dispatch calls and workers running concurrently\<close>

text \<open>
  The steps of the module that touch \<open>BTRFS_ROOT_GC_RUNNING\<close> or the work queue, each
  atomic: the \<open>test_and_set_bit\<close> of a dispatch call; its \<open>kmalloc\<close> with what follows
  (\<open>clear_bit\<close> when it fails, \<open>btrfs_queue_work\<close> otherwise); the \<open>clear_bit\<close> with
  which a worker leaves \<open>gc_work_fn\<close>.  A schedule is any list of such steps, of any
  number of dispatch calls and workers.
\<close>

datatype action = TestAndSet btrfs_root | Alloc btrfs_root | WorkerExit btrfs_root

text \<open>
  The shared state, and per root the number of dispatch calls that are between their
  \<open>test_and_set_bit\<close> that returned 0 and their \<open>kmalloc\<close>, and the number of workers
  that were queued and have not yet cleared the bit.
\<close>

record conc =
  shared :: world
  holders :: "btrfs_root \<Rightarrow> nat"
  active :: "btrfs_root \<Rightarrow> nat"

text \<open>
  A step is possible (\<open>Some\<close>) only for a thread that is at it: \<open>Alloc\<close> for a dispatch
  call that did not \<open>continue\<close> after its test, \<open>WorkerExit\<close> for a queued worker.
\<close>

definition conc_step :: "kernel \<Rightarrow> action \<Rightarrow> conc \<Rightarrow> conc option" where
  "conc_step K a c =
     (case a of
        TestAndSet r \<Rightarrow>
          (let (was_set, w) = test_and_set_bit r (shared c)
           in Some (if was_set then c\<lparr>shared := w\<rparr>
                    else c\<lparr>shared := w, holders := (holders c)(r := Suc (holders c r))\<rparr>))
      | Alloc r \<Rightarrow>
          if holders c r = 0 then None
          else (let (gc_work, w) = kmalloc K (shared c)
                in Some (if \<not> gc_work
                         then c\<lparr>shared := clear_bit r w,
                                holders := (holders c)(r := holders c r - 1)\<rparr>
                         else c\<lparr>shared := btrfs_queue_work r w,
                                holders := (holders c)(r := holders c r - 1),
                                active := (active c)(r := Suc (active c r))\<rparr>))
      | WorkerExit r \<Rightarrow>
          if active c r = 0 then None
          else Some (c\<lparr>shared := clear_bit r (shared c),
                       active := (active c)(r := active c r - 1)\<rparr>))"

fun run :: "kernel \<Rightarrow> action list \<Rightarrow> conc \<Rightarrow> conc option" where
  "run K [] c = Some c"
| "run K (a # as) c = (case conc_step K a c of None \<Rightarrow> None | Some c' \<Rightarrow> run K as c')"




section \<open>Properties\<close>

text \<open>The primitives, unfolded together when a run is computed.\<close>

lemmas prim_defs =
  ask_def emit_def btrfs_alloc_path_def btrfs_free_path_def btrfs_release_path_def
  btrfs_gc_rsv_refill_and_join_def btrfs_end_transaction_def btrfs_insert_empty_item_def
  btrfs_search_slot_def btrfs_del_item_def btrfs_first_item_def btrfs_item_key_to_cpu_def
  btrfs_get_fs_root_def btrfs_put_root_def btrfs_err_def btrfs_truncate_inode_items_def
  btrfs_btree_balance_dirty_def btrfs_alloc_block_rsv_def btrfs_free_block_rsv_def
  btrfs_fs_closing_def kmalloc_def test_and_set_bit_def clear_bit_def btrfs_queue_work_def
  btrfs_global_root_def IS_ERR_def MAX_ERRNO_def

lemmas errno_defs = ENOENT_def EAGAIN_def ENOMEM_def EEXIST_def EINVAL_def ENOSPC_def

subsection \<open>Routing\<close>

lemma sint_low32:
  fixes n :: u64
  assumes "uint n < 2147483648"
  shows "sint (ucast n :: 32 word) = uint n"
proof -
  have "sint (ucast n :: 32 word) = signed_take_bit 31 (uint n)"
    by (simp add: signed_ucast_eq)
  also have "\<dots> = uint n"
  proof (rule signed_take_bit_int_eq_self)
    have "- (2 ^ 31) \<le> (0::int)" by simp
    also have "0 \<le> uint n" by simp
    finally show "- (2 ^ 31) \<le> uint n" .
    show "uint n < 2 ^ 31" using assms by simp
  qed
  finally show ?thesis .
qed

lemma routed_index_enumerated:
  fixes x :: u64
  assumes "nr_global_roots fs \<noteq> 0" and "uint (nr_global_roots fs) < 2147483648"
  shows "uint (x mod nr_global_roots fs) \<in> set (gc_root_indices fs)"
proof -
  have "x mod nr_global_roots fs < nr_global_roots fs"
    using assms(1) by (simp add: word_mod_less_divisor word_neq_0_conv)
  then have "uint (x mod nr_global_roots fs) < uint (nr_global_roots fs)"
    by (simp add: word_less_def)
  then show ?thesis
    using sint_low32 [OF assms(2)] by (simp add: gc_root_indices_def)
qed

lemma set_key_insert: "set (key_insert k xs) = insert k (set xs)"
  by (induction xs) auto

lemma add_gc_item_other_trees:
  "r' \<noteq> r \<Longrightarrow> trees (snd (add_gc_item K r key rsv s)) r' = trees s r'"
  by (auto simp: add_gc_item_def btrfs_alloc_path_def btrfs_gc_rsv_refill_and_join_def
      btrfs_insert_empty_item_def btrfs_end_transaction_def btrfs_free_path_def ask_def emit_def
      Let_def split: prod.splits option.splits sum.splits if_splits)

lemma add_gc_item_success_inserts:
  "fst (add_gc_item K r key rsv s) = 0 \<Longrightarrow> key \<in> set (trees (snd (add_gc_item K r key rsv s)) r)"
  by (auto simp: add_gc_item_def btrfs_alloc_path_def btrfs_gc_rsv_refill_and_join_def
      btrfs_insert_empty_item_def btrfs_end_transaction_def btrfs_free_path_def ask_def emit_def
      Let_def set_key_insert ENOMEM_def EEXIST_def IS_ERR_def
      split: prod.splits option.splits sum.splits if_splits)

text \<open>
  C1, as amended.  On a filesystem with at least one and at most \<open>INT_MAX\<close> global
  roots, the root of an inode's GC item is the global root of the GC tree at index
  \<open>inode_number mod nr_global_roots\<close>; the dispatcher's loop reaches that index and
  resolves the same root there; adding the inode's GC item changes the items of that root
  only, and a successful add leaves the item there; two inodes with the same number are
  routed to the same root.  (Without the upper bound the claim fails: see
  \<open>inode_gc_root_not_enumerated\<close> below.)
\<close>

theorem inode_gc_root_routing:
  assumes "nr_global_roots fs \<noteq> 0" and "uint (nr_global_roots fs) < 2147483648"
  shows "inode_gc_root K fs inode =
           btrfs_global_root fs
             \<lparr>objectid = BTRFS_GC_TREE_OBJECTID K, type = BTRFS_ROOT_ITEM_KEY K,
              offset = btrfs_ino inode mod nr_global_roots fs\<rparr>
         \<and> uint (btrfs_ino inode mod nr_global_roots fs) \<in> set (gc_root_indices fs)
         \<and> gc_root_at K fs (uint (btrfs_ino inode mod nr_global_roots fs)) = inode_gc_root K fs inode
         \<and> (\<forall>r. r \<noteq> inode_gc_root K fs inode \<longrightarrow>
                trees (snd (btrfs_add_inode_gc_item K fs inode rsv s)) r = trees s r)
         \<and> (fst (btrfs_add_inode_gc_item K fs inode rsv s) = 0 \<longrightarrow>
                \<lparr>objectid = objectid (root_key (root inode)), type = BTRFS_GC_INODE_ITEM_KEY K,
                 offset = btrfs_ino inode\<rparr>
                  \<in> set (trees (snd (btrfs_add_inode_gc_item K fs inode rsv s)) (inode_gc_root K fs inode)))
         \<and> (\<forall>inode'. btrfs_ino inode' = btrfs_ino inode \<longrightarrow>
                inode_gc_root K fs inode' = inode_gc_root K fs inode)"
proof -
  have "inode_gc_root K fs inode =
          btrfs_global_root fs
            \<lparr>objectid = BTRFS_GC_TREE_OBJECTID K, type = BTRFS_ROOT_ITEM_KEY K,
             offset = btrfs_ino inode mod nr_global_roots fs\<rparr>"
    by (simp add: inode_gc_root_def)
  moreover have "uint (btrfs_ino inode mod nr_global_roots fs) \<in> set (gc_root_indices fs)"
    using assms by (rule routed_index_enumerated)
  moreover have "gc_root_at K fs (uint (btrfs_ino inode mod nr_global_roots fs)) = inode_gc_root K fs inode"
    by (simp add: inode_gc_root_def gc_root_at_def)
  moreover have "\<forall>r. r \<noteq> inode_gc_root K fs inode \<longrightarrow>
      trees (snd (btrfs_add_inode_gc_item K fs inode rsv s)) r = trees s r"
    by (simp add: btrfs_add_inode_gc_item_def add_gc_item_other_trees)
  moreover have "fst (btrfs_add_inode_gc_item K fs inode rsv s) = 0 \<longrightarrow>
      \<lparr>objectid = objectid (root_key (root inode)), type = BTRFS_GC_INODE_ITEM_KEY K,
       offset = btrfs_ino inode\<rparr>
        \<in> set (trees (snd (btrfs_add_inode_gc_item K fs inode rsv s)) (inode_gc_root K fs inode))"
    by (simp add: btrfs_add_inode_gc_item_def add_gc_item_success_inserts)
  moreover have "\<forall>inode'. btrfs_ino inode' = btrfs_ino inode \<longrightarrow>
      inode_gc_root K fs inode' = inode_gc_root K fs inode"
    by (simp add: inode_gc_root_def)
  ultimately show ?thesis by blast
qed

text \<open>
  Inode 42 of subvolume 7 on sixteen roots: index 10, which the dispatcher enumerates, and
  the add returns 0 and leaves the key \<open>(7, GC_INODE_ITEM, 42)\<close> in root 10.
\<close>

theorem inode_gc_root_routing_witness:
  "nr_global_roots fs16 \<noteq> 0 \<and> uint (nr_global_roots fs16) < 2147483648
   \<and> inode_gc_root kernel_ok fs16 inode42 = gc_root_at kernel_ok fs16 10
   \<and> (10::int) \<in> set (gc_root_indices fs16)
   \<and> fst (btrfs_add_inode_gc_item kernel_ok fs16 inode42 0 world0) = 0
   \<and> \<lparr>objectid = 7, type = 193, offset = 42\<rparr>
        \<in> set (trees (snd (btrfs_add_inode_gc_item kernel_ok fs16 inode42 0 world0))
                 (gc_root_at kernel_ok fs16 10))"
proof -
  have h1: "nr_global_roots fs16 \<noteq> 0" by (simp add: fs16_def)
  have h2: "uint (nr_global_roots fs16) < 2147483648" by (simp add: fs16_def)
  have m: "btrfs_ino inode42 mod nr_global_roots fs16 = 10"
    by (simp add: fs16_def inode42_def)
  have ok: "fst (btrfs_add_inode_gc_item kernel_ok fs16 inode42 0 world0) = 0"
    by (simp add: btrfs_add_inode_gc_item_def add_gc_item_def prim_defs Let_def
        kernel_ok_def world0_def inode_gc_root_def fs16_def inode42_def)
  have k: "\<lparr>objectid = objectid (root_key (root inode42)), type = BTRFS_GC_INODE_ITEM_KEY kernel_ok,
            offset = btrfs_ino inode42\<rparr> = \<lparr>objectid = 7, type = 193, offset = 42\<rparr>"
    by (simp add: inode42_def kernel_ok_def)
  note routing = inode_gc_root_routing [OF h1 h2, of kernel_ok inode42 0 world0]
  from routing have r: "inode_gc_root kernel_ok fs16 inode42 = gc_root_at kernel_ok fs16 10"
    by (simp add: m)
  from routing have i: "(10::int) \<in> set (gc_root_indices fs16)"
    by (simp add: m)
  from routing ok have "\<lparr>objectid = 7, type = 193, offset = 42\<rparr>
      \<in> set (trees (snd (btrfs_add_inode_gc_item kernel_ok fs16 inode42 0 world0))
               (inode_gc_root kernel_ok fs16 inode42))"
    unfolding k by blast
  then show ?thesis
    using h1 h2 ok i r by simp
qed

text \<open>
  C1 as stated, for every count of global roots, is false.  With \<open>2^32 + 3\<close> roots
  inode 100 is routed to the root at index 100, but the dispatcher keeps the count in an
  \<open>int\<close>, which is 3: its loop runs over the indices 0, 1 and 2, it queues workers for
  these three roots only, and the root of inode 100 is not among them.
\<close>

theorem inode_gc_root_not_enumerated:
  "nr_global_roots fs_wide \<noteq> 0
   \<and> btrfs_ino inode100 mod nr_global_roots fs_wide = 100
   \<and> inode_gc_root kernel_ok fs_wide inode100 = gc_root_at kernel_ok fs_wide 100
   \<and> gc_root_indices fs_wide = [0, 1, 2]
   \<and> gc_workers (btrfs_queue_gc_work kernel_ok fs_wide world0) =
        [gc_root_at kernel_ok fs_wide 0, gc_root_at kernel_ok fs_wide 1,
         gc_root_at kernel_ok fs_wide 2]
   \<and> inode_gc_root kernel_ok fs_wide inode100
        \<notin> set (gc_workers (btrfs_queue_gc_work kernel_ok fs_wide world0))"
proof -
  have ix: "gc_root_indices fs_wide = [0, 1, 2]"
    by (simp add: gc_root_indices_def fs_wide_def fs16_def upto.simps)
  have n: "nr_global_roots fs_wide \<noteq> 0" "btrfs_ino inode100 mod nr_global_roots fs_wide = 100"
    "incompat_extent_tree_v2 fs_wide"
    by (simp_all add: fs_wide_def fs16_def inode100_def)
  have g: "\<And>i. gc_root_at kernel_ok fs_wide i =
      \<lparr>root_key = \<lparr>objectid = 12, type = 132, offset = word_of_int i\<rparr>\<rparr>"
    by (simp add: gc_root_at_def prim_defs fs_wide_def fs16_def kernel_ok_def)
  have r: "inode_gc_root kernel_ok fs_wide inode100 = gc_root_at kernel_ok fs_wide 100"
    by (simp add: inode_gc_root_def gc_root_at_def n)
  have a: "\<And>n. answers kernel_ok P_kmalloc n = 1" "\<And>n. answers kernel_ok P_fs_closing n = 0"
    by (simp_all add: kernel_ok_def)
  have q: "gc_workers (btrfs_queue_gc_work kernel_ok fs_wide world0) =
        [gc_root_at kernel_ok fs_wide 0, gc_root_at kernel_ok fs_wide 1,
         gc_root_at kernel_ok fs_wide 2]"
    by (simp add: btrfs_queue_gc_work_def n ix queue_gc_root_def g a prim_defs Let_def world0_def)
  show ?thesis
    unfolding q r ix using n by (simp add: g)
qed

subsection \<open>Removing an item\<close>

text \<open>
  C4.  When the key is not among the items of the root, \<open>delete_gc_item\<close> (whose result
  is the state alone: there is no error to return) leaves the items of every tree as they
  were and never calls \<open>btrfs_del_item\<close>.
\<close>

theorem delete_gc_item_absent_deletes_nothing:
  assumes "key \<notin> set (trees s r)"
  shows "trees (delete_gc_item K r path rsv key s) = trees s
       \<and> calls (delete_gc_item K r path rsv key s) P_del_item = calls s P_del_item"
  using assms
  by (auto simp: delete_gc_item_def prim_defs errno_defs Let_def split: prod.splits sum.splits)

theorem delete_gc_item_absent_deletes_nothing_witness:
  "key742 \<notin> set (trees world0 root10)
   \<and> trees (delete_gc_item kernel_ok root10 0 0 key742 world0) = trees world0
   \<and> calls (delete_gc_item kernel_ok root10 0 0 key742 world0) P_del_item = 0"
  using delete_gc_item_absent_deletes_nothing [of key742 world0 root10 kernel_ok 0 0]
  by (simp add: world0_def)

text \<open>Every transaction \<open>gc_inode\<close> joins is ended, and it touches no GC item.\<close>

lemma gc_inode_loop_frame:
  assumes "gc_inode_loop K r rsv key s = Some y"
  shows "open_trans (snd y) = open_trans s \<and> trees (snd y) = trees s"
proof (rule gc_inode_loop.raw_induct
    [where P = "\<lambda>K r rsv key s y. open_trans (snd y) = open_trans s \<and> trees (snd y) = trees s",
      OF _ assms], goal_cases)
  case (1 loop K r rsv key s y)
  show ?case
  proof (cases "IS_ERR (answers K P_refill_and_join (calls s P_refill_and_join))")
    case True
    with 1(2) show ?thesis
      by (auto simp: prim_defs Let_def split: prod.splits sum.splits if_splits)
  next
    case False
    show ?thesis
    proof (cases "answers K P_truncate_inode_items (calls s P_truncate_inode_items) = - ENOSPC
        \<or> answers K P_truncate_inode_items (calls s P_truncate_inode_items) = - EAGAIN")
      case True
      with False 1(2) have "\<exists>s4. loop K r rsv key s4 = Some y
          \<and> open_trans s4 = open_trans s \<and> trees s4 = trees s"
        by (auto simp: prim_defs Let_def split: prod.splits sum.splits if_splits)
      then obtain s4 where "loop K r rsv key s4 = Some y"
          "open_trans s4 = open_trans s" "trees s4 = trees s"
        by blast
      with 1(1) [of K r rsv key s4] show ?thesis by simp
    next
      case no_retry: False
      with False 1(2) show ?thesis
        by (auto simp: prim_defs Let_def split: prod.splits sum.splits if_splits)
    qed
  qed
qed

lemma gc_inode_frame:
  "gc_inode K fs rsv key s = Some y \<Longrightarrow>
     open_trans (snd y) = open_trans s \<and> trees (snd y) = trees s"
  by (auto simp: gc_inode_def prim_defs Let_def
      split: prod.splits sum.splits if_splits option.splits dest!: gc_inode_loop_frame)

lemma add_gc_item_open_trans:
  "open_trans (snd (add_gc_item K r key rsv s)) = open_trans s"
  by (auto simp: add_gc_item_def prim_defs errno_defs Let_def
      split: prod.splits sum.splits option.splits)

lemma delete_gc_item_found_ends:
  assumes "\<not> IS_ERR (answers K P_refill_and_join (calls s P_refill_and_join))"
    and "0 \<le> answers K P_search_slot (calls s P_search_slot)" and "key \<in> set (trees s r)"
  shows "open_trans (delete_gc_item K r path rsv key s) = open_trans s
       \<and> paths (delete_gc_item K r path rsv key s) path = Clean"
  using assms
  by (auto simp: delete_gc_item_def prim_defs errno_defs Let_def split: prod.splits sum.splits)

text \<open>
  C10.  When \<open>delete_gc_item\<close> has joined a transaction and its search returns a nonzero
  result, it returns with that transaction still open (one more handle is open than
  before, and after the join and the search nothing else was called: neither
  \<open>btrfs_end_transaction\<close> nor \<open>btrfs_release_path\<close>), and when the search did not fail
  the path still holds the nodes of the root.  The other paths that join a transaction
  end it: \<open>add_gc_item\<close>, \<open>gc_inode\<close> whenever it returns, and \<open>delete_gc_item\<close> itself
  when the key is found, where it also releases the path.
\<close>

theorem delete_gc_item_search_failure_leaks:
  assumes "btrfs_gc_rsv_refill_and_join K r rsv s = (Inr h, s1)"
    and "fst (btrfs_search_slot K h r key path s1) \<noteq> 0"
  shows "open_trans (delete_gc_item K r path rsv key s) = Suc (open_trans s)
       \<and> trace (delete_gc_item K r path rsv key s) =
           trace s @ [Join h r rsv, SearchSlot h r key (fst (btrfs_search_slot K h r key path s1))]
       \<and> (0 < fst (btrfs_search_slot K h r key path s1) \<longrightarrow>
            paths (delete_gc_item K r path rsv key s) path = Held r None)
       \<and> open_trans (snd (add_gc_item K' r' key' rsv' s')) = open_trans s'
       \<and> (\<forall>y. gc_inode K' fs rsv' key' s' = Some y \<longrightarrow> open_trans (snd y) = open_trans s')
       \<and> (\<not> IS_ERR (answers K' P_refill_and_join (calls s' P_refill_and_join))
            \<and> 0 \<le> answers K' P_search_slot (calls s' P_search_slot) \<and> key' \<in> set (trees s' r') \<longrightarrow>
            open_trans (delete_gc_item K' r' path' rsv' key' s') = open_trans s'
            \<and> paths (delete_gc_item K' r' path' rsv' key' s') path' = Clean)"
proof -
  have "open_trans (delete_gc_item K r path rsv key s) = Suc (open_trans s)
      \<and> trace (delete_gc_item K r path rsv key s) =
          trace s @ [Join h r rsv, SearchSlot h r key (fst (btrfs_search_slot K h r key path s1))]
      \<and> (0 < fst (btrfs_search_slot K h r key path s1) \<longrightarrow>
           paths (delete_gc_item K r path rsv key s) path = Held r None)"
    using assms
    by (auto simp: delete_gc_item_def prim_defs errno_defs Let_def
        split: prod.splits sum.splits if_splits)
  moreover have "\<forall>y. gc_inode K' fs rsv' key' s' = Some y \<longrightarrow> open_trans (snd y) = open_trans s'"
    using gc_inode_frame by blast
  ultimately show ?thesis
    using add_gc_item_open_trans delete_gc_item_found_ends by blast
qed

text \<open>
  The key is absent from root 10: the search returns 1, one handle stays open, the trace
  ends with the search, and path 0 still holds the root.
\<close>

theorem delete_gc_item_search_failure_leaks_witness:
  "btrfs_gc_rsv_refill_and_join kernel_ok root10 5 world0 =
     (Inr \<lparr>transid = 0, block_rsv = TransBlockRsv\<rparr>,
      snd (btrfs_gc_rsv_refill_and_join kernel_ok root10 5 world0))
   \<and> fst (btrfs_search_slot kernel_ok \<lparr>transid = 0, block_rsv = TransBlockRsv\<rparr> root10 key742 0
            (snd (btrfs_gc_rsv_refill_and_join kernel_ok root10 5 world0))) = 1
   \<and> open_trans (delete_gc_item kernel_ok root10 0 5 key742 world0) = 1
   \<and> trace (delete_gc_item kernel_ok root10 0 5 key742 world0) =
       [Join \<lparr>transid = 0, block_rsv = TransBlockRsv\<rparr> root10 5,
        SearchSlot \<lparr>transid = 0, block_rsv = TransBlockRsv\<rparr> root10 key742 1]
   \<and> paths (delete_gc_item kernel_ok root10 0 5 key742 world0) 0 = Held root10 None"
proof -
  have j: "btrfs_gc_rsv_refill_and_join kernel_ok root10 5 world0 =
      (Inr \<lparr>transid = 0, block_rsv = TransBlockRsv\<rparr>,
       snd (btrfs_gc_rsv_refill_and_join kernel_ok root10 5 world0))"
    by (simp add: prim_defs Let_def kernel_ok_def world0_def)
  have f: "fst (btrfs_search_slot kernel_ok \<lparr>transid = 0, block_rsv = TransBlockRsv\<rparr> root10 key742 0
      (snd (btrfs_gc_rsv_refill_and_join kernel_ok root10 5 world0))) = 1"
    by (simp add: prim_defs Let_def kernel_ok_def world0_def)
  have n: "fst (btrfs_search_slot kernel_ok \<lparr>transid = 0, block_rsv = TransBlockRsv\<rparr> root10 key742 0
      (snd (btrfs_gc_rsv_refill_and_join kernel_ok root10 5 world0))) \<noteq> 0"
    by (simp add: f)
  have e: "open_trans world0 = 0" "trace world0 = []"
    by (simp_all add: world0_def)
  show ?thesis
    using delete_gc_item_search_failure_leaks [OF j n] j
    by (simp add: f e)
qed

subsection \<open>The reservation of a transaction\<close>

text \<open>
  C3, at root 10 holding the item of inode 42, with every call succeeding.
  \<open>add_gc_item\<close> inserts with the handle on the caller's reservation 5 and ends it on the
  default budget; \<open>delete_gc_item\<close> never writes \<open>block_rsv\<close>: the item is deleted
  with the handle still on the default budget it was joined with.
\<close>

theorem delete_gc_item_never_binds_reservation:
  "trace (snd (add_gc_item kernel_ok root10 key742 5 world0)) =
     [Join \<lparr>transid = 0, block_rsv = TransBlockRsv\<rparr> root10 5,
      InsertEmptyItem \<lparr>transid = 0, block_rsv = TempRsv 5\<rparr> root10 key742 0,
      EndTransaction \<lparr>transid = 0, block_rsv = TransBlockRsv\<rparr>]
   \<and> trace (delete_gc_item kernel_ok root10 0 5 key742 world1) =
     [Join \<lparr>transid = 0, block_rsv = TransBlockRsv\<rparr> root10 5,
      SearchSlot \<lparr>transid = 0, block_rsv = TransBlockRsv\<rparr> root10 key742 0,
      DelItem \<lparr>transid = 0, block_rsv = TransBlockRsv\<rparr> root10 (Some key742),
      ReleasePath 0,
      EndTransaction \<lparr>transid = 0, block_rsv = TransBlockRsv\<rparr>]
   \<and> trees (delete_gc_item kernel_ok root10 0 5 key742 world1) root10 = []"
  by (simp add: add_gc_item_def delete_gc_item_def prim_defs errno_defs Let_def
      kernel_ok_def world1_def world0_def)

subsection \<open>The retry loop of \<open>gc_inode\<close>\<close>

lemma gc_inode_loop_retry:
  assumes "\<not> IS_ERR (answers K P_refill_and_join (calls s P_refill_and_join))"
    and "answers K P_truncate_inode_items (calls s P_truncate_inode_items) = - ENOSPC
       \<or> answers K P_truncate_inode_items (calls s P_truncate_inode_items) = - EAGAIN"
  shows "\<exists>s4. gc_inode_loop K r rsv key s = gc_inode_loop K r rsv key s4
     \<and> calls s4 = (calls s)(P_refill_and_join := Suc (calls s P_refill_and_join),
                              P_truncate_inode_items := Suc (calls s P_truncate_inode_items))
     \<and> trace s4 = trace s @ truncate_attempt K r rsv key
                        (calls s P_refill_and_join) (calls s P_truncate_inode_items)"
  using assms
  by (subst gc_inode_loop.simps) (auto simp: prim_defs Let_def truncate_attempt_def fun_upd_twist)



text \<open>The other exit of the loop: a join that fails ends it with the join's error.\<close>

lemma gc_inode_loop_join_fails:
  assumes "\<forall>i<m. \<not> IS_ERR (answers K P_refill_and_join (calls s P_refill_and_join + i))"
    and "IS_ERR (answers K P_refill_and_join (calls s P_refill_and_join + m))"
    and "\<forall>i<m. answers K P_truncate_inode_items (calls s P_truncate_inode_items + i) = - ENOSPC
              \<or> answers K P_truncate_inode_items (calls s P_truncate_inode_items + i) = - EAGAIN"
  shows "\<exists>s'. gc_inode_loop K r rsv key s =
            Some (answers K P_refill_and_join (calls s P_refill_and_join + m), s')
       \<and> calls s' P_truncate_inode_items = calls s P_truncate_inode_items + m"
  using assms
proof (induction m arbitrary: s)
  case 0
  then show ?case
    by (subst gc_inode_loop.simps) (simp add: prim_defs Let_def)
next
  case (Suc m)
  have j0: "\<not> IS_ERR (answers K P_refill_and_join (calls s P_refill_and_join))"
    using Suc.prems(1) [rule_format, of 0] by simp
  have t0: "answers K P_truncate_inode_items (calls s P_truncate_inode_items) = - ENOSPC
       \<or> answers K P_truncate_inode_items (calls s P_truncate_inode_items) = - EAGAIN"
    using Suc.prems(3) [rule_format, of 0] by simp
  from gc_inode_loop_retry [OF j0 t0, of r rsv key]
  obtain s4 where s4: "gc_inode_loop K r rsv key s = gc_inode_loop K r rsv key s4"
    "calls s4 = (calls s)(P_refill_and_join := Suc (calls s P_refill_and_join),
                          P_truncate_inode_items := Suc (calls s P_truncate_inode_items))"
    by blast
  have c4: "calls s4 P_refill_and_join = Suc (calls s P_refill_and_join)"
    "calls s4 P_truncate_inode_items = Suc (calls s P_truncate_inode_items)"
    by (simp_all add: s4(2))
  have a: "\<forall>i<m. \<not> IS_ERR (answers K P_refill_and_join (calls s4 P_refill_and_join + i))"
    using Suc.prems(1) c4 by (auto dest: spec [where x = "Suc i" for i])
  have b: "IS_ERR (answers K P_refill_and_join (calls s4 P_refill_and_join + m))"
    using Suc.prems(2) c4 by simp
  have c: "\<forall>i<m. answers K P_truncate_inode_items (calls s4 P_truncate_inode_items + i) = - ENOSPC
              \<or> answers K P_truncate_inode_items (calls s4 P_truncate_inode_items + i) = - EAGAIN"
    using Suc.prems(3) c4 by (auto dest: spec [where x = "Suc i" for i])
  from Suc.IH [OF a b c] show ?case
    by (auto simp: s4 c4)
qed



subsection \<open>A subvolume root that cannot be looked up\<close>

lemma delete_gc_item_deletes:
  assumes "\<not> IS_ERR (answers K P_refill_and_join (calls s P_refill_and_join))"
    and "0 \<le> answers K P_search_slot (calls s P_search_slot)"
    and "0 \<le> answers K P_del_item (calls s P_del_item)"
    and "key \<in> set (trees s r)"
  shows "key \<notin> set (trees (delete_gc_item K r path rsv key s) r)"
  using assms
  by (auto simp: delete_gc_item_def prim_defs errno_defs Let_def split: prod.splits sum.splits)

text \<open>
  C6.  The loop body of the worker is at a GC inode item \<open>key\<close> and the lookup of the
  subvolume root fails with \<open>v\<close>.  If \<open>v\<close> is \<open>-ENOENT\<close>, \<open>gc_inode\<close> returns 0 without
  truncating or logging anything and the body goes on to \<open>delete_gc_item\<close>, which removes
  the item when its join, search and delete succeed.  Otherwise \<open>gc_inode\<close> returns
  \<open>v\<close>, which is not 0, without truncating, the error message is the only thing logged,
  and the body ends without \<open>delete_gc_item\<close>: no join, no delete, the trees as before.
\<close>

theorem gc_inode_root_lookup_failure:
  assumes v: "v = answers K P_get_fs_root (calls s P_get_fs_root)"
    and at: "paths s path = Held r (Some key)"
    and ty: "type key = BTRFS_GC_INODE_ITEM_KEY K"
    and err: "IS_ERR v"
  shows "(v = - ENOENT \<longrightarrow>
           (\<exists>s1. gc_inode K fs rsv key (btrfs_release_path path s) = Some (0, s1)
              \<and> calls s1 P_truncate_inode_items = calls s P_truncate_inode_items
              \<and> trace s1 = trace s @ [ReleasePath path]
              \<and> trees s1 = trees s
              \<and> gc_work_item K fs r path rsv s = Some (0, delete_gc_item K r path rsv key s1)
              \<and> (\<not> IS_ERR (answers K P_refill_and_join (calls s P_refill_and_join))
                  \<and> 0 \<le> answers K P_search_slot (calls s P_search_slot)
                  \<and> 0 \<le> answers K P_del_item (calls s P_del_item)
                  \<and> key \<in> set (trees s r) \<longrightarrow>
                  key \<notin> set (trees (delete_gc_item K r path rsv key s1) r))))
       \<and> (v \<noteq> - ENOENT \<longrightarrow>
           (\<exists>s1. gc_inode K fs rsv key (btrfs_release_path path s) = Some (v, s1)
              \<and> v \<noteq> 0
              \<and> calls s1 P_truncate_inode_items = calls s P_truncate_inode_items
              \<and> trace s1 = trace s @ [ReleasePath path, BtrfsErr (objectid key) v]
              \<and> gc_work_item K fs r path rsv s = Some (v, s1)
              \<and> trees s1 = trees s
              \<and> calls s1 P_refill_and_join = calls s P_refill_and_join
              \<and> calls s1 P_del_item = calls s P_del_item))"
proof (intro conjI impI)
  assume e: "v = - ENOENT"
  define s1 where "s1 = snd (btrfs_get_fs_root K fs (objectid key) (btrfs_release_path path s))"
  have g: "gc_inode K fs rsv key (btrfs_release_path path s) = Some (0, s1)"
    using v err e by (simp add: gc_inode_def s1_def prim_defs Let_def)
  have fr: "calls s1 P_truncate_inode_items = calls s P_truncate_inode_items"
    "trace s1 = trace s @ [ReleasePath path]" "trees s1 = trees s"
    "calls s1 P_refill_and_join = calls s P_refill_and_join"
    "calls s1 P_search_slot = calls s P_search_slot"
    "calls s1 P_del_item = calls s P_del_item"
    by (simp_all add: s1_def prim_defs Let_def split_def)
  have w: "gc_work_item K fs r path rsv s = Some (0, delete_gc_item K r path rsv key s1)"
    using g at ty by (simp add: gc_work_item_def btrfs_item_key_to_cpu_def Let_def)
  have d: "\<not> IS_ERR (answers K P_refill_and_join (calls s P_refill_and_join))
      \<and> 0 \<le> answers K P_search_slot (calls s P_search_slot)
      \<and> 0 \<le> answers K P_del_item (calls s P_del_item)
      \<and> key \<in> set (trees s r) \<longrightarrow>
      key \<notin> set (trees (delete_gc_item K r path rsv key s1) r)"
    using delete_gc_item_deletes [of K s1 key r path rsv] by (simp add: fr)
  show "\<exists>s1. gc_inode K fs rsv key (btrfs_release_path path s) = Some (0, s1)
      \<and> calls s1 P_truncate_inode_items = calls s P_truncate_inode_items
      \<and> trace s1 = trace s @ [ReleasePath path]
      \<and> trees s1 = trees s
      \<and> gc_work_item K fs r path rsv s = Some (0, delete_gc_item K r path rsv key s1)
      \<and> (\<not> IS_ERR (answers K P_refill_and_join (calls s P_refill_and_join))
          \<and> 0 \<le> answers K P_search_slot (calls s P_search_slot)
          \<and> 0 \<le> answers K P_del_item (calls s P_del_item)
          \<and> key \<in> set (trees s r) \<longrightarrow>
          key \<notin> set (trees (delete_gc_item K r path rsv key s1) r))"
    using g fr w d by blast
next
  assume e: "v \<noteq> - ENOENT"
  define s1 where "s1 = btrfs_err (objectid key) v
      (snd (btrfs_get_fs_root K fs (objectid key) (btrfs_release_path path s)))"
  have g: "gc_inode K fs rsv key (btrfs_release_path path s) = Some (v, s1)"
    using v err e by (simp add: gc_inode_def s1_def prim_defs Let_def)
  have nz: "v \<noteq> 0" using err by (auto simp: IS_ERR_def)
  have fr: "calls s1 P_truncate_inode_items = calls s P_truncate_inode_items"
    "trace s1 = trace s @ [ReleasePath path, BtrfsErr (objectid key) v]" "trees s1 = trees s"
    "calls s1 P_refill_and_join = calls s P_refill_and_join"
    "calls s1 P_del_item = calls s P_del_item"
    by (simp_all add: s1_def prim_defs Let_def split_def)
  have w: "gc_work_item K fs r path rsv s = Some (v, s1)"
    using g at ty nz by (simp add: gc_work_item_def btrfs_item_key_to_cpu_def Let_def)
  show "\<exists>s1. gc_inode K fs rsv key (btrfs_release_path path s) = Some (v, s1)
      \<and> v \<noteq> 0
      \<and> calls s1 P_truncate_inode_items = calls s P_truncate_inode_items
      \<and> trace s1 = trace s @ [ReleasePath path, BtrfsErr (objectid key) v]
      \<and> gc_work_item K fs r path rsv s = Some (v, s1)
      \<and> trees s1 = trees s
      \<and> calls s1 P_refill_and_join = calls s P_refill_and_join
      \<and> calls s1 P_del_item = calls s P_del_item"
    using g fr w nz by blast
qed

text \<open>
  With \<open>-ENOENT\<close> the body returns 0 and the item of inode 42 is gone from root 10; with
  \<open>-EIO\<close> it returns \<open>-5\<close>, the item is still there and the message was logged.
\<close>

theorem gc_inode_root_lookup_failure_witness:
  "(\<exists>s'. gc_work_item kernel_enoent fs16 root10 0 5 world1_at_item = Some (0, s')
        \<and> key742 \<notin> set (trees s' root10))
   \<and> (\<exists>s'. gc_work_item kernel_eio fs16 root10 0 5 world1_at_item = Some (- 5, s')
        \<and> trees s' root10 = [key742]
        \<and> trace s' = [ReleasePath 0, BtrfsErr 7 (- 5)])"
proof -
  have w: "paths world1_at_item 0 = Held root10 (Some key742)"
    "trees world1_at_item root10 = [key742]" "trace world1_at_item = []"
    "\<And>p. calls world1_at_item p = 0"
    by (simp_all add: world1_at_item_def world1_def world0_def)
  have k: "objectid key742 = 7" by (simp add: key742_def)
  have a: "answers kernel_enoent P_get_fs_root 0 = - ENOENT"
    "type key742 = BTRFS_GC_INODE_ITEM_KEY kernel_enoent"
    "answers kernel_enoent P_refill_and_join 0 = 1" "answers kernel_enoent P_search_slot 0 = 1"
    "answers kernel_enoent P_del_item 0 = 1"
    by (simp_all add: kernel_enoent_def kernel_ok_def key742_def errno_defs)
  have b: "answers kernel_eio P_get_fs_root 0 = - 5"
    "type key742 = BTRFS_GC_INODE_ITEM_KEY kernel_eio"
    by (simp_all add: kernel_eio_def kernel_ok_def key742_def)
  have "\<exists>s'. gc_work_item kernel_enoent fs16 root10 0 5 world1_at_item = Some (0, s')
      \<and> key742 \<notin> set (trees s' root10)"
    using gc_inode_root_lookup_failure
      [of "- ENOENT" kernel_enoent world1_at_item 0 root10 key742 fs16 5]
    by (auto simp: w a IS_ERR_def MAX_ERRNO_def errno_defs)
  moreover have "\<exists>s'. gc_work_item kernel_eio fs16 root10 0 5 world1_at_item = Some (- 5, s')
      \<and> trees s' root10 = [key742] \<and> trace s' = [ReleasePath 0, BtrfsErr 7 (- 5)]"
    using gc_inode_root_lookup_failure
      [of "- 5" kernel_eio world1_at_item 0 root10 key742 fs16 5]
    by (auto simp: w b k IS_ERR_def MAX_ERRNO_def errno_defs)
  ultimately show ?thesis by blast
qed

subsection \<open>The drain loop\<close>

lemma gc_work_loop_not_closing:
  "answers K P_fs_closing (calls s P_fs_closing) = 0 \<Longrightarrow>
   gc_work_loop K fs r path rsv s = Some (snd (btrfs_fs_closing K s))"
  by (subst gc_work_loop.simps) (simp add: prim_defs Let_def)

text \<open>After an item whose subvolume root cannot be looked up, the loop goes round again.\<close>

lemma gc_work_loop_failed_item:
  assumes "answers K P_fs_closing (calls s P_fs_closing) \<noteq> 0"
    and "0 \<le> answers K P_first_item (calls s P_first_item)"
    and "trees s r = key # ks"
    and "type key = BTRFS_GC_INODE_ITEM_KEY K"
    and "IS_ERR (answers K P_get_fs_root (calls s P_get_fs_root))"
    and "answers K P_get_fs_root (calls s P_get_fs_root) \<noteq> - ENOENT"
  shows "gc_work_loop K fs r path rsv s =
         gc_work_loop K fs r path rsv (after_failed_item K fs r path key s)"
  using assms
  by (subst gc_work_loop.simps)
     (auto simp: gc_work_item_def gc_inode_def after_failed_item_def prim_defs Let_def)

lemma after_failed_item_frame:
  "trees (after_failed_item K fs r path key s) = trees s"
  "calls (after_failed_item K fs r path key s) =
     (calls s)(P_fs_closing := Suc (calls s P_fs_closing),
               P_first_item := Suc (calls s P_first_item),
               P_get_fs_root := Suc (calls s P_get_fs_root))"
  "0 \<le> answers K P_first_item (calls s P_first_item) \<Longrightarrow>
   trace (after_failed_item K fs r path key s) =
     trace s @ [ReleasePath path,
                BtrfsErr (objectid key) (answers K P_get_fs_root (calls s P_get_fs_root))]"
  by (auto simp: after_failed_item_def prim_defs Let_def fun_upd_twist split: list.splits)

text \<open>
  While the filesystem stays closing and the lookup keeps failing, the loop never returns.
\<close>

lemma gc_work_loop_spins:
  assumes run: "gc_work_loop K fs r path rsv s = Some y"
    and "\<forall>n. answers K P_fs_closing n \<noteq> 0"
    and "\<forall>n. 0 \<le> answers K P_first_item n"
    and "\<forall>n. IS_ERR (answers K P_get_fs_root n) \<and> answers K P_get_fs_root n \<noteq> - ENOENT"
    and "trees s r = key # ks" and "type key = BTRFS_GC_INODE_ITEM_KEY K"
  shows False
proof -
  have "(\<forall>n. answers K P_fs_closing n \<noteq> 0) \<longrightarrow> (\<forall>n. 0 \<le> answers K P_first_item n) \<longrightarrow>
    (\<forall>n. IS_ERR (answers K P_get_fs_root n) \<and> answers K P_get_fs_root n \<noteq> - ENOENT) \<longrightarrow>
    trees s r = key # ks \<longrightarrow> type key = BTRFS_GC_INODE_ITEM_KEY K \<longrightarrow> False"
  proof (rule gc_work_loop.raw_induct
      [where P = "\<lambda>K fs r path rsv s y.
         (\<forall>n. answers K P_fs_closing n \<noteq> 0) \<longrightarrow> (\<forall>n. 0 \<le> answers K P_first_item n) \<longrightarrow>
         (\<forall>n. IS_ERR (answers K P_get_fs_root n) \<and> answers K P_get_fs_root n \<noteq> - ENOENT) \<longrightarrow>
         trees s r = key # ks \<longrightarrow> type key = BTRFS_GC_INODE_ITEM_KEY K \<longrightarrow> False",
        OF _ run], goal_cases)
    case (1 loop K fs r path rsv s y)
    show ?case
    proof (intro impI)
      assume k: "\<forall>n. answers K P_fs_closing n \<noteq> 0" "\<forall>n. 0 \<le> answers K P_first_item n"
        "\<forall>n. IS_ERR (answers K P_get_fs_root n) \<and> answers K P_get_fs_root n \<noteq> - ENOENT"
        and t: "trees s r = key # ks" "type key = BTRFS_GC_INODE_ITEM_KEY K"
      have i: "answers K P_fs_closing (calls s P_fs_closing) \<noteq> 0"
        "0 \<le> answers K P_first_item (calls s P_first_item)"
        "IS_ERR (answers K P_get_fs_root (calls s P_get_fs_root))"
        "answers K P_get_fs_root (calls s P_get_fs_root) \<noteq> - ENOENT"
        using k by simp_all
      have "loop K fs r path rsv (after_failed_item K fs r path key s) = Some y"
        using 1(2) i t
        by (auto simp: gc_work_item_def gc_inode_def after_failed_item_def prim_defs Let_def)
      moreover have "trees (after_failed_item K fs r path key s) r = key # ks"
        using t by (simp add: after_failed_item_frame)
      ultimately show False
        using 1(1) k t by blast
    qed
  qed
  with assms show False by blast
qed

lemma gc_work_fn_eio_spins: "gc_work_fn kernel_eio fs16 root10 world1_running = None"
proof -
  have "gc_work_loop kernel_eio fs16 root10 p rsv s = None"
    if "trees s root10 = [key742]" for p rsv s
  proof (cases "gc_work_loop kernel_eio fs16 root10 p rsv s")
    case (Some y)
    from gc_work_loop_spins [OF Some, of key742 "[]"] that show ?thesis
      by (simp add: kernel_eio_def kernel_ok_def prim_defs errno_defs key742_def)
  qed simp
  then show ?thesis
    by (simp add: gc_work_fn_def prim_defs Let_def kernel_eio_def kernel_ok_def
        world1_running_def world1_def world0_def)
qed

lemma gc_work_fn_eio_twice_entry:
  "gc_work_fn kernel_eio_twice fs16 root10 world1_running =
     (case gc_work_loop kernel_eio_twice fs16 root10 0 0 world1_loop_entry of
        None \<Rightarrow> None
      | Some s4 \<Rightarrow>
          Some (clear_bit root10 (btrfs_free_path (Some 0) (btrfs_free_block_rsv 0 s4))))"
  by (simp add: gc_work_fn_def prim_defs Let_def kernel_eio_twice_def kernel_ok_def
      world1_running_def world1_def world0_def world1_loop_entry_def fun_upd_twist
      cong: option.case_cong)

lemma gc_work_fn_eio_twice_run:
  "\<exists>s'. gc_work_fn kernel_eio_twice fs16 root10 world1_running = Some s'
     \<and> calls s' P_get_fs_root = 2 \<and> trees s' root10 = [key742]
     \<and> trace s' = [ReleasePath 0, BtrfsErr 7 (- 5), ReleasePath 0, BtrfsErr 7 (- 5)]"
proof -
  let ?K = kernel_eio_twice
  define a1 where "a1 = after_failed_item ?K fs16 root10 0 key742 world1_loop_entry"
  define a2 where "a2 = after_failed_item ?K fs16 root10 0 key742 a1"
  have k: "type key742 = BTRFS_GC_INODE_ITEM_KEY ?K" "objectid key742 = 7"
    "\<And>n. answers ?K P_get_fs_root n = - 5" "\<And>n. answers ?K P_first_item n = 1"
    "\<And>n. answers ?K P_fs_closing n = (if n < 2 then 1 else 0)"
    by (simp_all add: kernel_eio_twice_def kernel_ok_def key742_def)
  have e: "trees world1_loop_entry root10 = [key742]" "calls world1_loop_entry P_fs_closing = 0"
    "calls world1_loop_entry P_first_item = 0" "calls world1_loop_entry P_get_fs_root = 0"
    "trace world1_loop_entry = []"
    by (simp_all add: world1_loop_entry_def world1_running_def world1_def world0_def)
  have s1: "gc_work_loop ?K fs16 root10 0 0 world1_loop_entry = gc_work_loop ?K fs16 root10 0 0 a1"
    unfolding a1_def
    by (rule gc_work_loop_failed_item [where ks = "[]"]) (simp_all add: k e prim_defs errno_defs)
  have f1: "trees a1 root10 = [key742]" "calls a1 P_fs_closing = 1"
    "calls a1 P_first_item = 1" "calls a1 P_get_fs_root = 1"
    "trace a1 = [ReleasePath 0, BtrfsErr 7 (- 5)]"
    unfolding a1_def using e by (simp_all add: after_failed_item_frame k)
  have s2: "gc_work_loop ?K fs16 root10 0 0 a1 = gc_work_loop ?K fs16 root10 0 0 a2"
    unfolding a2_def
    by (rule gc_work_loop_failed_item [where ks = "[]"]) (simp_all add: k f1 prim_defs errno_defs)
  have f2: "trees a2 root10 = [key742]" "calls a2 P_fs_closing = 2"
    "calls a2 P_first_item = 2" "calls a2 P_get_fs_root = 2"
    "trace a2 = [ReleasePath 0, BtrfsErr 7 (- 5), ReleasePath 0, BtrfsErr 7 (- 5)]"
    unfolding a2_def using f1 by (simp_all add: after_failed_item_frame k)
  have s3: "gc_work_loop ?K fs16 root10 0 0 a2 = Some (snd (btrfs_fs_closing ?K a2))"
    by (rule gc_work_loop_not_closing) (simp add: k f2)
  show ?thesis
    unfolding gc_work_fn_eio_twice_entry s1 s2 s3 using f2
    by (simp add: prim_defs Let_def)
qed

text \<open>
  C2, at root 10 whose first item is the GC item of inode 42 of a subvolume that cannot be
  read (\<open>-EIO\<close>).  While the filesystem stays closing the worker does not stop at the
  failing item: it never returns.  When the filesystem is closing at the first two tests
  of the loop condition only, the worker returns after it has attempted the same item
  twice (two lookups, two error messages), with the item still in place.
\<close>

theorem gc_work_fn_reattempts_failing_item:
  "gc_work_fn kernel_eio fs16 root10 world1_running = None
   \<and> (\<exists>s'. gc_work_fn kernel_eio_twice fs16 root10 world1_running = Some s'
         \<and> calls s' P_get_fs_root = 2 \<and> trees s' root10 = [key742]
         \<and> trace s' = [ReleasePath 0, BtrfsErr 7 (- 5), ReleasePath 0, BtrfsErr 7 (- 5)])"
  using gc_work_fn_eio_spins gc_work_fn_eio_twice_run by blast

subsection \<open>The running bit\<close>

text \<open>
  Whenever \<open>gc_work_fn\<close> returns, the running bit of its root is clear in the state it
  returns.  It does return, with the bit clear and nothing processed, when the path
  cannot be allocated and when the reservation cannot be allocated.  In the dispatcher,
  when the bit was clear and \<open>kmalloc\<close> fails, the bit is clear again after the loop
  body and nothing was queued.
\<close>

lemma gc_running_cleared_when_returning:
  "(\<forall>s'. gc_work_fn K fs r s = Some s' \<longrightarrow> \<not> gc_running s' r)
   \<and> (answers K P_alloc_path (calls s P_alloc_path) = 0 \<longrightarrow>
        (\<exists>s'. gc_work_fn K fs r s = Some s' \<and> \<not> gc_running s' r
            \<and> trees s' = trees s \<and> trace s' = trace s))
   \<and> (answers K P_alloc_path (calls s P_alloc_path) \<noteq> 0
        \<and> answers K P_alloc_block_rsv (calls s P_alloc_block_rsv) = 0 \<longrightarrow>
        (\<exists>s'. gc_work_fn K fs r s = Some s' \<and> \<not> gc_running s' r
            \<and> trees s' = trees s \<and> trace s' = trace s))
   \<and> (\<not> gc_running s (gc_root_at K fs i) \<and> answers K P_kmalloc (calls s P_kmalloc) = 0 \<longrightarrow>
        \<not> gc_running (queue_gc_root K fs i s) (gc_root_at K fs i)
        \<and> gc_workers (queue_gc_root K fs i s) = gc_workers s)"
proof (intro conjI)
  show "\<forall>s'. gc_work_fn K fs r s = Some s' \<longrightarrow> \<not> gc_running s' r"
    by (auto simp: gc_work_fn_def clear_bit_def Let_def split: prod.splits option.splits)
  show "answers K P_alloc_path (calls s P_alloc_path) = 0 \<longrightarrow>
      (\<exists>s'. gc_work_fn K fs r s = Some s' \<and> \<not> gc_running s' r
          \<and> trees s' = trees s \<and> trace s' = trace s)"
    by (simp add: gc_work_fn_def prim_defs Let_def)
  show "answers K P_alloc_path (calls s P_alloc_path) \<noteq> 0
      \<and> answers K P_alloc_block_rsv (calls s P_alloc_block_rsv) = 0 \<longrightarrow>
      (\<exists>s'. gc_work_fn K fs r s = Some s' \<and> \<not> gc_running s' r
          \<and> trees s' = trees s \<and> trace s' = trace s)"
    by (simp add: gc_work_fn_def prim_defs Let_def)
  show "\<not> gc_running s (gc_root_at K fs i) \<and> answers K P_kmalloc (calls s P_kmalloc) = 0 \<longrightarrow>
      \<not> gc_running (queue_gc_root K fs i s) (gc_root_at K fs i)
      \<and> gc_workers (queue_gc_root K fs i s) = gc_workers s"
    by (simp add: queue_gc_root_def prim_defs Let_def)
qed

text \<open>
  C7, at root 10 whose first item is the GC item of inode 42 of a subvolume that cannot be
  read (\<open>-EIO\<close>) while the filesystem stays closing.  The bit of root 10 is set when the
  worker starts.  The failure of the item is not an exit of the worker: the loop is back
  at its condition with the bit still set, and the worker never returns, so it never
  reaches the \<open>clear_bit\<close> at \<open>out\<close>.
\<close>

theorem gc_work_fn_failing_item_never_clears_running:
  "gc_running world1_running root10
   \<and> gc_work_fn kernel_eio fs16 root10 world1_running = None
   \<and> gc_work_loop kernel_eio fs16 root10 0 0 world1_loop_entry =
       gc_work_loop kernel_eio fs16 root10 0 0
         (after_failed_item kernel_eio fs16 root10 0 key742 world1_loop_entry)
   \<and> gc_running (after_failed_item kernel_eio fs16 root10 0 key742 world1_loop_entry) root10"
proof -
  have k: "type key742 = BTRFS_GC_INODE_ITEM_KEY kernel_eio"
    "\<And>n. answers kernel_eio P_get_fs_root n = - 5" "\<And>n. answers kernel_eio P_first_item n = 1"
    "\<And>n. answers kernel_eio P_fs_closing n = 1"
    by (simp_all add: kernel_eio_def kernel_ok_def key742_def)
  have e: "trees world1_loop_entry root10 = [key742]" "gc_running world1_loop_entry root10"
    "gc_running world1_running root10"
    by (simp_all add: world1_loop_entry_def world1_running_def world1_def world0_def)
  have s: "gc_work_loop kernel_eio fs16 root10 0 0 world1_loop_entry =
       gc_work_loop kernel_eio fs16 root10 0 0
         (after_failed_item kernel_eio fs16 root10 0 key742 world1_loop_entry)"
    by (rule gc_work_loop_failed_item [where ks = "[]"]) (simp_all add: k e prim_defs errno_defs)
  have g: "gc_running (after_failed_item kernel_eio fs16 root10 0 key742 world1_loop_entry) root10"
    using e by (simp add: after_failed_item_def prim_defs Let_def split_def split: list.splits)
  show ?thesis
    using e(3) gc_work_fn_eio_spins s g by blast
qed

subsection \<open>Dispatching and draining under one closing state\<close>

lemma btrfs_queue_gc_work_closing:
  "answers K P_fs_closing (calls s P_fs_closing) \<noteq> 0 \<Longrightarrow>
   gc_workers (btrfs_queue_gc_work K fs s) = gc_workers s"
  by (simp add: btrfs_queue_gc_work_def prim_defs Let_def)

lemma gc_work_fn_not_closing:
  assumes "answers K P_fs_closing (calls w P_fs_closing) = 0"
  shows "\<exists>w'. gc_work_fn K fs r w = Some w' \<and> trees w' = trees w \<and> trace w' = trace w
     \<and> calls w' P_first_item = calls w P_first_item
     \<and> calls w' P_get_fs_root = calls w P_get_fs_root
     \<and> calls w' P_refill_and_join = calls w P_refill_and_join"
  using assms
  by (simp add: gc_work_fn_def gc_work_loop_not_closing prim_defs Let_def)

text \<open>
  C9.  Let \<open>btrfs_fs_closing\<close> give the same answer whenever it is asked.  Then a worker
  for any root that \<open>btrfs_queue_gc_work\<close> has added to the queue, run in any state,
  returns without having processed an item: it did not read a first item, did not look a
  subvolume up, joined no transaction, and the trees and the trace are as they were.
\<close>

theorem constant_closing_worker_drains_nothing:
  assumes "\<forall>n m. (answers K P_fs_closing n \<noteq> 0) = (answers K P_fs_closing m \<noteq> 0)"
    and "r \<in> set (drop (length (gc_workers s)) (gc_workers (btrfs_queue_gc_work K fs s)))"
  shows "\<exists>w'. gc_work_fn K fs r w = Some w' \<and> trees w' = trees w \<and> trace w' = trace w
     \<and> calls w' P_first_item = calls w P_first_item
     \<and> calls w' P_get_fs_root = calls w P_get_fs_root
     \<and> calls w' P_refill_and_join = calls w P_refill_and_join"
proof (cases "answers K P_fs_closing (calls s P_fs_closing) = 0")
  case True
  with assms(1) have "answers K P_fs_closing (calls w P_fs_closing) = 0"
    by blast
  then show ?thesis by (rule gc_work_fn_not_closing)
next
  case False
  then have "gc_workers (btrfs_queue_gc_work K fs s) = gc_workers s"
    by (rule btrfs_queue_gc_work_closing)
  with assms(2) show ?thesis by simp
qed

text \<open>
  Not closing, one global root: the dispatcher queues a worker for it, and that worker,
  run in a state where root 10 holds the item of inode 42, returns with every tree and
  the trace untouched.
\<close>

theorem constant_closing_worker_drains_nothing_witness:
  "gc_root_at kernel_ok fs1 0
     \<in> set (drop (length (gc_workers world0)) (gc_workers (btrfs_queue_gc_work kernel_ok fs1 world0)))
   \<and> (\<exists>w'. gc_work_fn kernel_ok fs1 (gc_root_at kernel_ok fs1 0) world1 = Some w'
         \<and> trees w' = trees world1 \<and> trace w' = trace world1)"
proof -
  have c: "\<forall>n m. (answers kernel_ok P_fs_closing n \<noteq> 0) = (answers kernel_ok P_fs_closing m \<noteq> 0)"
    by (simp add: kernel_ok_def)
  have q: "gc_workers (btrfs_queue_gc_work kernel_ok fs1 world0) = [gc_root_at kernel_ok fs1 0]"
    by (simp add: btrfs_queue_gc_work_def queue_gc_root_def gc_root_indices_def fs1_def fs16_def
        prim_defs Let_def kernel_ok_def world0_def)
  have m: "gc_root_at kernel_ok fs1 0
     \<in> set (drop (length (gc_workers world0)) (gc_workers (btrfs_queue_gc_work kernel_ok fs1 world0)))"
    unfolding q by (simp add: world0_def)
  from constant_closing_worker_drains_nothing [OF c m, of world1] m
  show ?thesis by blast
qed

subsection \<open>One worker per root\<close>















end
